theory Spec2Isabelle
  imports Main
begin

section \<open>The dark-mode controller of \<^verbatim>\<open>src/js/main.js\<close>\<close>

text \<open>
  The script is one immediately invoked function. It looks the toggle button up by its
  id, returns early with a console warning when the button is missing, and otherwise
  defines \<^verbatim>\<open>apply(enabled)\<close>, resolves the initial theme from \<^verbatim>\<open>localStorage\<close> or from
  the \<^verbatim>\<open>prefers-color-scheme\<close> media query, and registers a click listener that inverts
  the button's \<^verbatim>\<open>aria-pressed\<close> attribute.

  The browser objects the script touches are the state of the model: the elements of
  the document by id, the class list of the root element, \<^verbatim>\<open>localStorage\<close>, the media
  query and the console. Every function of the script takes that state and returns
  the state it leaves behind. The host operations used by the script are taken to
  succeed, as the script itself does (it has no \<^verbatim>\<open>try\<close>): storage is readable and
  writable.
\<close>

subsection \<open>Values and strings\<close>

text \<open>
  The argument of \<^verbatim>\<open>apply\<close> is a boolean at two of its three call sites
  (\<^verbatim>\<open>stored === '1'\<close>, \<^verbatim>\<open>!isOn\<close>). At the third it is
  \<^verbatim>\<open>window.matchMedia && window.matchMedia(...).matches\<close>, which is \<^verbatim>\<open>undefined\<close> when
  the host has no \<^verbatim>\<open>matchMedia\<close>.
\<close>

datatype jsval = JUndefined | JBool bool

text \<open>\<^verbatim>\<open>Boolean(v)\<close> and the truthiness test of \<^verbatim>\<open>v ? a : b\<close>.\<close>

fun js_Boolean :: "jsval \<Rightarrow> bool" where
  "js_Boolean JUndefined = False"
| "js_Boolean (JBool b) = b"

text \<open>\<^verbatim>\<open>String(b)\<close> on a boolean.\<close>

fun js_String :: "bool \<Rightarrow> string" where
  "js_String True = ''true''"
| "js_String False = ''false''"

text \<open>
  The two labels are not ASCII. They are kept as the UTF-8 bytes of the literals in the
  source file: U+2600 U+FE0F (sun) and U+1F319 (crescent moon).
\<close>

definition sun_glyph :: string where
  "sun_glyph = [CHR 0xE2, CHR 0x98, CHR 0x80, CHR 0xEF, CHR 0xB8, CHR 0x8F]"

definition moon_glyph :: string where
  "moon_glyph = [CHR 0xF0, CHR 0x9F, CHR 0x8C, CHR 0x99]"

definition toggle_id :: string where
  "toggle_id = ''dark-mode-toggle''"

definition warning_text :: string where
  "warning_text =
     ''[Mundi Synthetic] Bot'' @ [CHR 0xC3, CHR 0xB3] @
     ''n del modo oscuro no encontrado a'' @ [CHR 0xC3, CHR 0xBA] @ ''n.''"

subsection \<open>The state of the page\<close>

text \<open>The only listener the script ever registers is the closure of lines 82 to 85.\<close>

datatype listener = ToggleListener

record button =
  attributes :: "string \<rightharpoonup> string"
  textContent :: string
  listeners :: "(string \<times> listener) list"

record world =
  elements :: "string \<rightharpoonup> button"
  root_classes :: "string list"
  localStorage :: "string \<rightharpoonup> string"
  matchMedia :: "bool option"
  console :: "string list"

text \<open>
  \<open>elements\<close> is \<^verbatim>\<open>document.getElementById\<close>; \<open>root_classes\<close> is the token list of
  \<^verbatim>\<open>document.documentElement.classList\<close>; \<open>matchMedia\<close> is \<open>None\<close> when
  \<^verbatim>\<open>window.matchMedia\<close> is missing and otherwise the \<^verbatim>\<open>matches\<close> field of the query
  \<^verbatim>\<open>(prefers-color-scheme: dark)\<close>; \<open>console\<close> collects the warnings.
\<close>

subsection \<open>Host operations\<close>

text \<open>
  \<^verbatim>\<open>classList.toggle(token, force)\<close> as the DOM standard gives it: a present token is
  removed when \<open>force\<close> is not given or false, an absent one is appended when \<open>force\<close> is
  not given or true. An \<^verbatim>\<open>undefined\<close> second argument counts as not given.
\<close>

definition classList_toggle :: "string \<Rightarrow> jsval \<Rightarrow> string list \<Rightarrow> string list" where
  "classList_toggle token force cs =
     (if token \<in> set cs
      then (if force = JUndefined \<or> force = JBool False then removeAll token cs else cs)
      else (if force = JUndefined \<or> force = JBool True then cs @ [token] else cs))"

text \<open>
  The constant \<^verbatim>\<open>btn\<close> of the script is the element found under \<open>toggle_id\<close>. The
  functions below are only reached after the guard of line 28, so the element is
  there; on a state without it they leave the elements as they are.
\<close>

definition update_btn :: "(button \<Rightarrow> button) \<Rightarrow> world \<Rightarrow> world" where
  "update_btn f w =
     (case elements w toggle_id of
        None \<Rightarrow> w
      | Some e \<Rightarrow> w\<lparr>elements := (elements w)(toggle_id \<mapsto> f e)\<rparr>)"

definition setAttribute :: "string \<Rightarrow> string \<Rightarrow> world \<Rightarrow> world" where
  "setAttribute name v = update_btn (\<lambda>e. e\<lparr>attributes := (attributes e)(name \<mapsto> v)\<rparr>)"

definition getAttribute :: "string \<Rightarrow> world \<Rightarrow> string option" where
  "getAttribute name w =
     (case elements w toggle_id of None \<Rightarrow> None | Some e \<Rightarrow> attributes e name)"

definition set_textContent :: "string \<Rightarrow> world \<Rightarrow> world" where
  "set_textContent v = update_btn (\<lambda>e. e\<lparr>textContent := v\<rparr>)"

definition addEventListener :: "string \<Rightarrow> listener \<Rightarrow> world \<Rightarrow> world" where
  "addEventListener ty l = update_btn (\<lambda>e. e\<lparr>listeners := listeners e @ [(ty, l)]\<rparr>)"

definition setItem :: "string \<Rightarrow> string \<Rightarrow> world \<Rightarrow> world" where
  "setItem k v w = w\<lparr>localStorage := (localStorage w)(k \<mapsto> v)\<rparr>"

definition getItem :: "string \<Rightarrow> world \<Rightarrow> string option" where
  "getItem k w = localStorage w k"

definition console_warn :: "string \<Rightarrow> world \<Rightarrow> world" where
  "console_warn msg w = w\<lparr>console := console w @ [msg]\<rparr>"

subsection \<open>The script\<close>

text \<open>Lines 45 to 54: the four statements of \<^verbatim>\<open>apply\<close>, in the order of the source.\<close>

definition apply_enabled :: "jsval \<Rightarrow> world \<Rightarrow> world" where
  "apply_enabled enabled w =
     (let w1 = w\<lparr>root_classes := classList_toggle ''dark-mode'' enabled (root_classes w)\<rparr>;
          w2 = setAttribute ''aria-pressed'' (js_String (js_Boolean enabled)) w1;
          w3 = setItem ''darkMode'' (if js_Boolean enabled then ''1'' else ''0'') w2
      in set_textContent (if js_Boolean enabled then sun_glyph else moon_glyph) w3)"

text \<open>Lines 69 to 71: \<^verbatim>\<open>window.matchMedia && window.matchMedia(...).matches\<close>.\<close>

definition prefersDark :: "world \<Rightarrow> jsval" where
  "prefersDark w = (case matchMedia w of None \<Rightarrow> JUndefined | Some m \<Rightarrow> JBool m)"

text \<open>Lines 82 to 85: the body of the click listener.\<close>

definition click_listener :: "world \<Rightarrow> world" where
  "click_listener w =
     (let isOn = (getAttribute ''aria-pressed'' w = Some ''true'')
      in apply_enabled (JBool (\<not> isOn)) w)"

fun run_listener :: "listener \<Rightarrow> world \<Rightarrow> world" where
  "run_listener ToggleListener w = click_listener w"

text \<open>
  One click on the button: the listeners registered on it for \<^verbatim>\<open>click\<close> run in the
  order of their registration.
\<close>

definition dispatch_click :: "world \<Rightarrow> world" where
  "dispatch_click w =
     (case elements w toggle_id of
        None \<Rightarrow> w
      | Some e \<Rightarrow>
          fold (\<lambda>(ty, l) s. if ty = ''click'' then run_listener l s else s) (listeners e) w)"

text \<open>Lines 16 to 95: the body of the immediately invoked function.\<close>

definition init_module :: "world \<Rightarrow> world" where
  "init_module w =
     (case elements w toggle_id of
        None \<Rightarrow> console_warn warning_text w
      | Some btn \<Rightarrow>
          (let w1 = (case getItem ''darkMode'' w of
                       Some stored \<Rightarrow> apply_enabled (JBool (stored = ''1'')) w
                     | None \<Rightarrow> apply_enabled (prefersDark w) w)
           in addEventListener ''click'' ToggleListener w1))"

text \<open>What an observer reads back from the page.\<close>

definition dark_marker :: "world \<Rightarrow> bool" where
  "dark_marker w = (''dark-mode'' \<in> set (root_classes w))"

definition aria_pressed :: "world \<Rightarrow> string option" where
  "aria_pressed w = getAttribute ''aria-pressed'' w"

definition label :: "world \<Rightarrow> string option" where
  "label w = map_option textContent (elements w toggle_id)"

definition stored_key :: "world \<Rightarrow> string option" where
  "stored_key w = getItem ''darkMode'' w"

definition btn_found :: "world \<Rightarrow> bool" where
  "btn_found w = (elements w toggle_id \<noteq> None)"

definition btn_listeners :: "world \<Rightarrow> (string \<times> listener) list" where
  "btn_listeners w = (case elements w toggle_id of None \<Rightarrow> [] | Some e \<Rightarrow> listeners e)"

subsection \<open>Concrete pages\<close>

text \<open>A page with an unlabelled button and empty storage, on a host that prefers dark.\<close>

definition blank_button :: button where
  "blank_button = \<lparr>attributes = Map.empty, textContent = [], listeners = []\<rparr>"

definition page0 :: world where
  "page0 = \<lparr>elements = [toggle_id \<mapsto> blank_button], root_classes = [],
            localStorage = Map.empty, matchMedia = Some True, console = []\<rparr>"

text \<open>The same page with \<^verbatim>\<open>"1"\<close> stored, on a host that prefers light.\<close>

definition page_stored_1 :: world where
  "page_stored_1 = page0\<lparr>localStorage := [''darkMode'' \<mapsto> ''1''], matchMedia := Some False\<rparr>"

text \<open>The same page with the token \<^verbatim>\<open>"true"\<close> stored.\<close>

definition page_stored_true :: world where
  "page_stored_true = page0\<lparr>localStorage := [''darkMode'' \<mapsto> ''true'']\<rparr>"

text \<open>
  A page in dark mode after one run of the script, whose button attribute was then set
  to \<^verbatim>\<open>"mixed"\<close> by some other script.
\<close>

definition page_mixed :: world where
  "page_mixed =
     \<lparr>elements = [toggle_id \<mapsto>
        \<lparr>attributes = [''aria-pressed'' \<mapsto> ''mixed''], textContent = sun_glyph,
         listeners = [(''click'', ToggleListener)]\<rparr>],
      root_classes = [''dark-mode''], localStorage = [''darkMode'' \<mapsto> ''1''],
      matchMedia = Some False, console = []\<rparr>"

text \<open>
  Pages on which the header, and with it the button, has not been loaded yet: one with
  \<^verbatim>\<open>"1"\<close> stored on a host that prefers light, one with nothing stored on a host that
  prefers dark, and one with the token \<^verbatim>\<open>"dark"\<close> stored whose root element carries
  the class \<^verbatim>\<open>dark-mode\<close> in its markup.
\<close>

definition page_no_button_stored_1 :: world where
  "page_no_button_stored_1 =
     \<lparr>elements = Map.empty, root_classes = [], localStorage = [''darkMode'' \<mapsto> ''1''],
      matchMedia = Some False, console = []\<rparr>"

definition page_no_button_prefers_dark :: world where
  "page_no_button_prefers_dark =
     \<lparr>elements = Map.empty, root_classes = [], localStorage = Map.empty,
      matchMedia = Some True, console = []\<rparr>"

definition page_no_button_stored_dark :: world where
  "page_no_button_stored_dark =
     \<lparr>elements = Map.empty, root_classes = [''dark-mode''],
      localStorage = [''darkMode'' \<mapsto> ''dark''], matchMedia = Some False, console = []\<rparr>"

section \<open>Basic facts about the host operations and the script\<close>

lemmas host_defs =
  set_textContent_def setItem_def setAttribute_def addEventListener_def update_btn_def
  getItem_def getAttribute_def console_warn_def

lemmas observer_defs =
  dark_marker_def aria_pressed_def label_def stored_key_def btn_found_def btn_listeners_def

lemmas page_defs =
  page0_def page_stored_1_def page_stored_true_def page_mixed_def blank_button_def
  page_no_button_stored_1_def page_no_button_prefers_dark_def page_no_button_stored_dark_def

lemma glyphs_differ: "sun_glyph \<noteq> moon_glyph"
  by (simp add: sun_glyph_def moon_glyph_def)

lemma marker_apply: "dark_marker (apply_enabled (JBool b) w) = b"
  by (simp add: apply_enabled_def Let_def host_defs observer_defs classList_toggle_def
      split: option.splits)

lemma aria_apply:
  "btn_found w \<Longrightarrow> aria_pressed (apply_enabled v w) = Some (js_String (js_Boolean v))"
  by (auto simp: apply_enabled_def Let_def host_defs observer_defs)

lemma label_apply:
  "btn_found w \<Longrightarrow>
   label (apply_enabled v w) = Some (if js_Boolean v then sun_glyph else moon_glyph)"
  by (auto simp: apply_enabled_def Let_def host_defs observer_defs)

lemma stored_apply:
  "stored_key (apply_enabled v w) = Some (if js_Boolean v then ''1'' else ''0'')"
  by (simp add: apply_enabled_def Let_def host_defs observer_defs split: option.splits)

lemma storage_apply_enabled:
  "localStorage (apply_enabled v w) =
     (localStorage w)(''darkMode'' \<mapsto> (if js_Boolean v then ''1'' else ''0''))"
  by (simp add: apply_enabled_def Let_def host_defs split: option.splits)

lemma found_apply: "btn_found (apply_enabled v w) = btn_found w"
  by (simp add: apply_enabled_def Let_def host_defs observer_defs split: option.splits)

lemma listeners_apply: "btn_listeners (apply_enabled v w) = btn_listeners w"
  by (simp add: apply_enabled_def Let_def host_defs observer_defs split: option.splits)

lemma observers_addEventListener:
  "dark_marker (addEventListener ty l w) = dark_marker w"
  "aria_pressed (addEventListener ty l w) = aria_pressed w"
  "label (addEventListener ty l w) = label w"
  "stored_key (addEventListener ty l w) = stored_key w"
  "btn_found (addEventListener ty l w) = btn_found w"
  by (simp_all add: host_defs observer_defs split: option.splits)

lemma storage_addEventListener: "localStorage (addEventListener ty l w) = localStorage w"
  by (simp add: host_defs split: option.splits)

lemma listeners_addEventListener:
  "btn_found w \<Longrightarrow> btn_listeners (addEventListener ty l w) = btn_listeners w @ [(ty, l)]"
  by (auto simp: host_defs observer_defs)

lemma init_found:
  "btn_found w \<Longrightarrow>
   init_module w =
     addEventListener ''click'' ToggleListener
       (apply_enabled
          (case stored_key w of Some stored \<Rightarrow> JBool (stored = ''1'') | None \<Rightarrow> prefersDark w)
          w)"
  by (auto simp: init_module_def Let_def observer_defs split: option.splits)

lemma init_missing: "\<not> btn_found w \<Longrightarrow> init_module w = console_warn warning_text w"
  by (simp add: init_module_def btn_found_def)

lemma click_listener_eq:
  "click_listener w = apply_enabled (JBool (aria_pressed w \<noteq> Some ''true'')) w"
  by (simp add: click_listener_def aria_pressed_def)

lemma apply_matchMedia:
  "apply_enabled v (w\<lparr>matchMedia := m\<rparr>) = (apply_enabled v w)\<lparr>matchMedia := m\<rparr>"
  by (simp add: apply_enabled_def Let_def host_defs split: option.splits)

lemma addEventListener_matchMedia:
  "addEventListener ty l (w\<lparr>matchMedia := m\<rparr>) = (addEventListener ty l w)\<lparr>matchMedia := m\<rparr>"
  by (simp add: host_defs split: option.splits)

lemma dispatch_single:
  "btn_listeners w = [(''click'', ToggleListener)] \<Longrightarrow> dispatch_click w = click_listener w"
  by (simp add: dispatch_click_def btn_listeners_def split: option.splits)

text \<open>
  One run of the script on a page whose button has no listener yet leaves exactly one
  click listener on it.
\<close>

lemma init_one_listener:
  assumes "btn_found w" and "btn_listeners w = []"
  shows "btn_listeners (init_module w) = [(''click'', ToggleListener)]"
  using assms
  by (simp add: init_found listeners_addEventListener found_apply listeners_apply)

section \<open>Claims about \<^verbatim>\<open>apply\<close>\<close>

text \<open>
  C1. For every boolean \<open>enabled\<close> and every state in which the button exists, the state
  after \<^verbatim>\<open>apply(enabled)\<close> has all four facets in agreement with \<open>enabled\<close>: the root
  element carries the class \<^verbatim>\<open>dark-mode\<close> iff \<open>enabled\<close>, the attribute
  \<^verbatim>\<open>aria-pressed\<close> is \<^verbatim>\<open>"true"\<close> iff \<open>enabled\<close> (and \<^verbatim>\<open>"false"\<close> otherwise), the label is the
  glyph of the enabled side (the sun) iff \<open>enabled\<close> (and the moon otherwise), and the key
  \<^verbatim>\<open>darkMode\<close> holds \<^verbatim>\<open>"1"\<close> iff \<open>enabled\<close> (and \<^verbatim>\<open>"0"\<close> otherwise). Since this holds
  whatever the four facets were before the call, no call leaves some of them behind.
\<close>

theorem apply_consistent:
  assumes "btn_found w"
  shows "(dark_marker (apply_enabled (JBool enabled) w) \<longleftrightarrow> enabled) \<and>
         (aria_pressed (apply_enabled (JBool enabled) w) = Some ''true'' \<longleftrightarrow> enabled) \<and>
         aria_pressed (apply_enabled (JBool enabled) w) =
           Some (if enabled then ''true'' else ''false'') \<and>
         (label (apply_enabled (JBool enabled) w) = Some sun_glyph \<longleftrightarrow> enabled) \<and>
         label (apply_enabled (JBool enabled) w) =
           Some (if enabled then sun_glyph else moon_glyph) \<and>
         (stored_key (apply_enabled (JBool enabled) w) = Some ''1'' \<longleftrightarrow> enabled) \<and>
         stored_key (apply_enabled (JBool enabled) w) =
           Some (if enabled then ''1'' else ''0'')"
proof -
  have "dark_marker (apply_enabled (JBool enabled) w) = enabled"
    by (rule marker_apply)
  moreover have "aria_pressed (apply_enabled (JBool enabled) w) =
      Some (if enabled then ''true'' else ''false'')"
    using aria_apply [OF assms, of "JBool enabled"] by (cases enabled) simp_all
  moreover have "label (apply_enabled (JBool enabled) w) =
      Some (if enabled then sun_glyph else moon_glyph)"
    using label_apply [OF assms, of "JBool enabled"] by simp
  moreover have "stored_key (apply_enabled (JBool enabled) w) =
      Some (if enabled then ''1'' else ''0'')"
    using stored_apply [of "JBool enabled" w] by simp
  ultimately show ?thesis
    using glyphs_differ by (cases enabled) simp_all
qed

theorem apply_consistent_witness:
  "btn_found page_mixed \<and>
   \<not> dark_marker (apply_enabled (JBool False) page_mixed) \<and>
   aria_pressed (apply_enabled (JBool False) page_mixed) = Some ''false'' \<and>
   label (apply_enabled (JBool False) page_mixed) = Some moon_glyph \<and>
   stored_key (apply_enabled (JBool False) page_mixed) = Some ''0''"
proof -
  have found: "btn_found page_mixed"
    by (simp add: btn_found_def page_mixed_def)
  from apply_consistent [OF found, of False] found show ?thesis
    by simp
qed

text \<open>
  C7. \<^verbatim>\<open>apply\<close> is idempotent on booleans: for every boolean \<open>b\<close> and every state, calling
  \<^verbatim>\<open>apply(b)\<close> twice in succession leaves the same state as calling it once. The whole
  state is the same, so in particular the marker, the attribute, the label and the key.
\<close>

theorem apply_idempotent:
  "apply_enabled (JBool b) (apply_enabled (JBool b) w) = apply_enabled (JBool b) w"
  by (cases "elements w toggle_id")
     (simp_all add: apply_enabled_def Let_def host_defs classList_toggle_def)

text \<open>
  C8. Round trip through storage: after \<^verbatim>\<open>apply(true)\<close> the key \<^verbatim>\<open>darkMode\<close> reads
  exactly \<^verbatim>\<open>"1"\<close>, after \<^verbatim>\<open>apply(false)\<close> exactly \<^verbatim>\<open>"0"\<close>, and after any call of
  \<^verbatim>\<open>apply\<close>, whatever its argument and the state before, the key is present: the call
  writes it and never deletes it.
\<close>

theorem apply_storage_round_trip:
  "stored_key (apply_enabled (JBool True) w) = Some ''1'' \<and>
   stored_key (apply_enabled (JBool False) w) = Some ''0'' \<and>
   stored_key (apply_enabled v w) \<noteq> None"
  by (simp add: stored_apply)

section \<open>Claims about initialization\<close>

text \<open>
  C6. For every initial state in which no element has the id of the button, the script
  logs its warning and returns: the state it leaves is the initial one with the
  warning appended to the console. No element has gained a listener, the class list
  of the root element is untouched and so is storage. The run ends in a state, so
  nothing was raised.
\<close>

theorem init_missing_control:
  assumes "\<not> btn_found w"
  shows "init_module w = w\<lparr>console := console w @ [warning_text]\<rparr> \<and>
         elements (init_module w) = elements w \<and>
         btn_listeners (init_module w) = [] \<and>
         root_classes (init_module w) = root_classes w \<and>
         localStorage (init_module w) = localStorage w"
  using assms
  by (simp add: init_missing console_warn_def btn_listeners_def btn_found_def)

theorem init_missing_control_witness:
  "\<not> btn_found page_no_button_stored_1 \<and>
   console (init_module page_no_button_stored_1) = [warning_text] \<and>
   elements (init_module page_no_button_stored_1) = Map.empty \<and>
   root_classes (init_module page_no_button_stored_1) = [] \<and>
   localStorage (init_module page_no_button_stored_1) = [''darkMode'' \<mapsto> ''1'']"
proof -
  have missing: "\<not> btn_found page_no_button_stored_1"
    by (simp add: btn_found_def page_no_button_stored_1_def)
  from init_missing_control [OF missing] missing show ?thesis
    by (simp add: page_no_button_stored_1_def)
qed

text \<open>
  C2, as the claim states it, does not hold: with \<^verbatim>\<open>"1"\<close> stored but the button not
  yet in the document, the script returns at line 33 before it reads storage, and the
  page is not put in dark mode.
\<close>

theorem stored_1_missing_control_counterexample:
  "stored_key page_no_button_stored_1 = Some ''1'' \<and>
   \<not> dark_marker (init_module page_no_button_stored_1) \<and>
   aria_pressed (init_module page_no_button_stored_1) = None"
  by (simp add: init_module_def observer_defs host_defs
      page_no_button_stored_1_def)

text \<open>
  C2, amended. For every initial state in which the button is found and the key
  \<^verbatim>\<open>darkMode\<close> holds \<^verbatim>\<open>"1"\<close>, initialization is \<^verbatim>\<open>apply(true)\<close> followed by the
  registration of the listener, and it ends in dark mode: marker set, attribute
  \<^verbatim>\<open>"true"\<close>, key \<^verbatim>\<open>"1"\<close>. The media query plays no part: changing its answer in the
  initial state changes nothing in the final state but that answer.
\<close>

theorem init_stored_1_wins:
  assumes "btn_found w" and "stored_key w = Some ''1''"
  shows "init_module w = addEventListener ''click'' ToggleListener (apply_enabled (JBool True) w) \<and>
         dark_marker (init_module w) \<and>
         aria_pressed (init_module w) = Some ''true'' \<and>
         stored_key (init_module w) = Some ''1'' \<and>
         (\<forall>m. init_module (w\<lparr>matchMedia := m\<rparr>) = (init_module w)\<lparr>matchMedia := m\<rparr>)"
proof -
  have run: "init_module w =
      addEventListener ''click'' ToggleListener (apply_enabled (JBool True) w)"
    using assms by (simp add: init_found)
  have "init_module (w\<lparr>matchMedia := m\<rparr>) = (init_module w)\<lparr>matchMedia := m\<rparr>" for m
  proof -
    have "btn_found (w\<lparr>matchMedia := m\<rparr>)" and "stored_key (w\<lparr>matchMedia := m\<rparr>) = Some ''1''"
      using assms by (simp_all add: observer_defs getItem_def)
    then have "init_module (w\<lparr>matchMedia := m\<rparr>) =
        addEventListener ''click'' ToggleListener (apply_enabled (JBool True) (w\<lparr>matchMedia := m\<rparr>))"
      by (simp add: init_found)
    then show ?thesis
      by (simp add: run apply_matchMedia addEventListener_matchMedia)
  qed
  then show ?thesis
    using assms(1) run
    by (simp add: observers_addEventListener marker_apply aria_apply stored_apply)
qed

theorem init_stored_1_wins_witness:
  "btn_found page_stored_1 \<and> stored_key page_stored_1 = Some ''1'' \<and>
   matchMedia page_stored_1 = Some False \<and>
   dark_marker (init_module page_stored_1) \<and>
   aria_pressed (init_module page_stored_1) = Some ''true''"
proof -
  have found: "btn_found page_stored_1" and key: "stored_key page_stored_1 = Some ''1''"
    by (simp_all add: observer_defs getItem_def page_defs)
  have light: "matchMedia page_stored_1 = Some False"
    by (simp add: page_defs)
  from init_stored_1_wins [OF found key] found key light show ?thesis
    by blast
qed

text \<open>
  C3, as the claim states it, does not hold: with nothing stored on a host that prefers
  dark, but the button not yet in the document, the script returns at line 33 and the
  page is not put in dark mode.
\<close>

theorem prefers_dark_missing_control_counterexample:
  "stored_key page_no_button_prefers_dark = None \<and>
   matchMedia page_no_button_prefers_dark = Some True \<and>
   \<not> dark_marker (init_module page_no_button_prefers_dark) \<and>
   aria_pressed (init_module page_no_button_prefers_dark) = None"
  by (simp add: init_module_def observer_defs host_defs
      page_no_button_prefers_dark_def)

text \<open>
  C3, amended. For every initial state in which the button is found, the key
  \<^verbatim>\<open>darkMode\<close> is absent and the media query reports that the host prefers dark,
  initialization is \<^verbatim>\<open>apply(true)\<close> followed by the registration of the listener, and it
  ends in dark mode: marker set, attribute \<^verbatim>\<open>"true"\<close>, label the sun.
\<close>

theorem init_fallback_prefers_dark:
  assumes "btn_found w" and "stored_key w = None" and "matchMedia w = Some True"
  shows "init_module w = addEventListener ''click'' ToggleListener (apply_enabled (JBool True) w) \<and>
         dark_marker (init_module w) \<and>
         aria_pressed (init_module w) = Some ''true'' \<and>
         label (init_module w) = Some sun_glyph"
proof -
  have "init_module w =
      addEventListener ''click'' ToggleListener (apply_enabled (JBool True) w)"
    using assms by (simp add: init_found prefersDark_def)
  then show ?thesis
    using assms(1)
    by (simp add: observers_addEventListener marker_apply aria_apply label_apply)
qed

theorem init_fallback_prefers_dark_witness:
  "btn_found page0 \<and> stored_key page0 = None \<and> matchMedia page0 = Some True \<and>
   dark_marker (init_module page0) \<and>
   aria_pressed (init_module page0) = Some ''true'' \<and>
   label (init_module page0) = Some sun_glyph"
proof -
  have found: "btn_found page0" and key: "stored_key page0 = None"
    and dark: "matchMedia page0 = Some True"
    by (simp_all add: observer_defs getItem_def page_defs)
  from init_fallback_prefers_dark [OF found key dark] found key dark show ?thesis
    by blast
qed

text \<open>
  C4, as the claim states it, does not hold: on a page with the button, nothing
  stored and a host that prefers dark, initialization calls \<^verbatim>\<open>apply\<close>, whose third
  statement is \<^verbatim>\<open>localStorage.setItem\<close>; the key holds \<^verbatim>\<open>"1"\<close> afterwards although
  no click has happened.
\<close>

theorem init_writes_storage_counterexample:
  "btn_found page0 \<and> stored_key page0 = None \<and> matchMedia page0 = Some True \<and>
   stored_key (init_module page0) = Some ''1''"
  by (simp add: init_module_def apply_enabled_def Let_def prefersDark_def
      observer_defs host_defs page_defs)

text \<open>
  C4, amended. For every initialization in which the button is found and the key
  \<^verbatim>\<open>darkMode\<close> is absent, the theme resolved from the media query is written to
  storage at once: after initialization the key holds \<^verbatim>\<open>"1"\<close> when the query reports
  that the host prefers dark and \<^verbatim>\<open>"0"\<close> otherwise (also when the host has no
  \<^verbatim>\<open>matchMedia\<close>). No other key is written. The key is written by every call of
  \<^verbatim>\<open>apply\<close>, with the token of its argument, and so by initialization as well as by
  each toggle: in every state a run of the click listener stores \<^verbatim>\<open>"0"\<close> when the
  attribute \<^verbatim>\<open>aria-pressed\<close> reads \<^verbatim>\<open>"true"\<close> and \<^verbatim>\<open>"1"\<close> otherwise, and changes no
  other key. In particular the first click after such an initialization, on a button
  that had no listener before, replaces the token that initialization stored by the
  opposite one.
\<close>

theorem init_fallback_writes_storage:
  assumes "btn_found w" and "stored_key w = None"
  shows "stored_key (init_module w) = Some (if matchMedia w = Some True then ''1'' else ''0'') \<and>
         localStorage (init_module w) =
           (localStorage w)(''darkMode'' \<mapsto> (if matchMedia w = Some True then ''1'' else ''0'')) \<and>
         (\<forall>v s. stored_key (apply_enabled v s) = Some (if js_Boolean v then ''1'' else ''0'')) \<and>
         (\<forall>s. stored_key (click_listener s) =
                Some (if aria_pressed s = Some ''true'' then ''0'' else ''1'')) \<and>
         (\<forall>s. localStorage (click_listener s) =
                (localStorage s)(''darkMode'' \<mapsto>
                   (if aria_pressed s = Some ''true'' then ''0'' else ''1''))) \<and>
         (btn_listeners w = [] \<longrightarrow>
            stored_key (dispatch_click (init_module w)) =
              Some (if matchMedia w = Some True then ''0'' else ''1''))"
proof -
  let ?v = "prefersDark w"
  have run: "init_module w = addEventListener ''click'' ToggleListener (apply_enabled ?v w)"
    using assms by (simp add: init_found)
  have truthy: "js_Boolean ?v = (matchMedia w = Some True)"
    by (cases "matchMedia w") (simp_all add: prefersDark_def)
  have at_init: "stored_key (init_module w) =
      Some (if matchMedia w = Some True then ''1'' else ''0'')"
    by (simp add: run observers_addEventListener stored_apply truthy)
  have only_key: "localStorage (init_module w) =
      (localStorage w)(''darkMode'' \<mapsto> (if matchMedia w = Some True then ''1'' else ''0''))"
    using truthy by (simp add: run storage_addEventListener storage_apply_enabled)
  have every_apply:
    "stored_key (apply_enabled v s) = Some (if js_Boolean v then ''1'' else ''0'')" for v s
    by (rule stored_apply)
  have every_click: "stored_key (click_listener s) =
      Some (if aria_pressed s = Some ''true'' then ''0'' else ''1'')" for s
    by (simp add: click_listener_eq stored_apply)
  have click_frame: "localStorage (click_listener s) =
      (localStorage s)(''darkMode'' \<mapsto>
         (if aria_pressed s = Some ''true'' then ''0'' else ''1''))" for s
    by (simp add: click_listener_eq storage_apply_enabled)
  have first_click: "stored_key (dispatch_click (init_module w)) =
      Some (if matchMedia w = Some True then ''0'' else ''1'')" if fresh: "btn_listeners w = []"
  proof -
    have "btn_listeners (init_module w) = [(''click'', ToggleListener)]"
      using assms(1) fresh by (rule init_one_listener)
    then have "dispatch_click (init_module w) = click_listener (init_module w)"
      by (rule dispatch_single)
    moreover have "aria_pressed (init_module w) = Some (js_String (matchMedia w = Some True))"
      using assms(1) by (simp add: run observers_addEventListener aria_apply truthy)
    ultimately show ?thesis
      by (cases "matchMedia w = Some True") (simp_all add: every_click)
  qed
  from at_init only_key every_apply every_click click_frame first_click show ?thesis
    by blast
qed

theorem init_fallback_writes_storage_witness:
  "btn_found (page0\<lparr>matchMedia := None\<rparr>) \<and> stored_key (page0\<lparr>matchMedia := None\<rparr>) = None \<and>
   btn_listeners (page0\<lparr>matchMedia := None\<rparr>) = [] \<and>
   stored_key (init_module (page0\<lparr>matchMedia := None\<rparr>)) = Some ''0'' \<and>
   stored_key (dispatch_click (init_module (page0\<lparr>matchMedia := None\<rparr>))) = Some ''1'' \<and>
   stored_key (click_listener page_mixed) = Some ''1''"
proof -
  have found: "btn_found (page0\<lparr>matchMedia := None\<rparr>)"
    and key: "stored_key (page0\<lparr>matchMedia := None\<rparr>) = None"
    and fresh: "btn_listeners (page0\<lparr>matchMedia := None\<rparr>) = []"
    by (simp_all add: observer_defs getItem_def page_defs)
  have mixed: "aria_pressed page_mixed \<noteq> Some ''true''"
    by (simp add: observer_defs getAttribute_def page_defs toggle_id_def)
  note writes = init_fallback_writes_storage [OF found key]
  from writes have at_init:
    "stored_key (init_module (page0\<lparr>matchMedia := None\<rparr>)) = Some ''0''"
    by simp
  from writes fresh have first_click:
    "stored_key (dispatch_click (init_module (page0\<lparr>matchMedia := None\<rparr>))) = Some ''1''"
    by simp
  from writes mixed have other: "stored_key (click_listener page_mixed) = Some ''1''"
    by simp
  from found key fresh at_init first_click other show ?thesis
    by blast
qed

text \<open>
  C9, as the claim states it, does not hold: with the token \<^verbatim>\<open>"dark"\<close> stored, a root
  element that carries the class \<^verbatim>\<open>dark-mode\<close> and the button not yet in the document,
  the script returns at line 33. \<^verbatim>\<open>apply(false)\<close> is not called: the marker stays set
  and the key still holds \<^verbatim>\<open>"dark"\<close>, not \<^verbatim>\<open>"0"\<close>.
\<close>

theorem stored_other_missing_control_counterexample:
  "stored_key page_no_button_stored_dark = Some ''dark'' \<and>
   dark_marker (init_module page_no_button_stored_dark) \<and>
   stored_key (init_module page_no_button_stored_dark) = Some ''dark''"
  by (simp add: init_module_def observer_defs host_defs
      page_no_button_stored_dark_def)

text \<open>
  C9, amended. For every initial state in which the button is found and the key
  \<^verbatim>\<open>darkMode\<close> holds a token, initialization is \<^verbatim>\<open>apply(stored === '1')\<close> followed by
  the registration of the listener: any token other than exactly \<^verbatim>\<open>"1"\<close> (such as
  \<^verbatim>\<open>"true"\<close>, \<^verbatim>\<open>"dark"\<close> or the empty string) gives \<^verbatim>\<open>apply(false)\<close> and ends in light
  mode with the key rewritten to \<^verbatim>\<open>"0"\<close>, and only the token \<^verbatim>\<open>"1"\<close> gives
  \<^verbatim>\<open>apply(true)\<close>.
\<close>

theorem init_stored_decoding:
  assumes "btn_found w" and "stored_key w = Some stored"
  shows "init_module w =
           addEventListener ''click'' ToggleListener (apply_enabled (JBool (stored = ''1'')) w) \<and>
         (dark_marker (init_module w) \<longleftrightarrow> stored = ''1'') \<and>
         (aria_pressed (init_module w) = Some ''true'' \<longleftrightarrow> stored = ''1'') \<and>
         (stored \<noteq> ''1'' \<longrightarrow>
            init_module w =
              addEventListener ''click'' ToggleListener (apply_enabled (JBool False) w) \<and>
            aria_pressed (init_module w) = Some ''false'' \<and>
            label (init_module w) = Some moon_glyph \<and>
            stored_key (init_module w) = Some ''0'')"
proof -
  have run: "init_module w =
      addEventListener ''click'' ToggleListener (apply_enabled (JBool (stored = ''1'')) w)"
    using assms by (simp add: init_found)
  have marker: "dark_marker (init_module w) = (stored = ''1'')"
    by (simp add: run observers_addEventListener marker_apply)
  have aria: "aria_pressed (init_module w) = Some (js_String (stored = ''1''))"
    using assms(1) by (simp add: run observers_addEventListener aria_apply)
  have lab: "label (init_module w) = Some (if stored = ''1'' then sun_glyph else moon_glyph)"
    using assms(1) by (simp add: run observers_addEventListener label_apply)
  have key: "stored_key (init_module w) = Some (if stored = ''1'' then ''1'' else ''0'')"
    by (simp add: run observers_addEventListener stored_apply)
  show ?thesis
  proof (cases "stored = ''1''")
    case True
    with run marker aria show ?thesis by simp
  next
    case False
    with run marker aria lab key show ?thesis by simp
  qed
qed

theorem init_stored_decoding_witness:
  "btn_found page_stored_true \<and> stored_key page_stored_true = Some ''true'' \<and>
   \<not> dark_marker (init_module page_stored_true) \<and>
   aria_pressed (init_module page_stored_true) = Some ''false'' \<and>
   stored_key (init_module page_stored_true) = Some ''0''"
proof -
  have found: "btn_found page_stored_true"
    and key: "stored_key page_stored_true = Some ''true''"
    by (simp_all add: observer_defs getItem_def page_defs)
  have other: "''true'' \<noteq> ''1''"
    by simp
  from init_stored_decoding [OF found key] found key other show ?thesis
    by blast
qed

section \<open>Claims about the click listener\<close>

text \<open>
  C5. In every state in which the button exists and its attribute \<^verbatim>\<open>aria-pressed\<close>
  reads \<^verbatim>\<open>"true"\<close>, one run of the click listener is \<^verbatim>\<open>apply(false)\<close>: afterwards the
  attribute reads \<^verbatim>\<open>"false"\<close>, the label is the glyph shown in light mode (the moon),
  the key holds \<^verbatim>\<open>"0"\<close> and the marker is gone. When the button carries the one
  listener that an initialization registers, a click on it is one such run. In every
  state the listener applies the negation of what the attribute reads at that moment:
  it has no other input.
\<close>

theorem click_inverts_pressed:
  assumes "btn_found w" and "aria_pressed w = Some ''true''"
  shows "click_listener w = apply_enabled (JBool False) w \<and>
         aria_pressed (click_listener w) = Some ''false'' \<and>
         label (click_listener w) = Some moon_glyph \<and>
         stored_key (click_listener w) = Some ''0'' \<and>
         \<not> dark_marker (click_listener w) \<and>
         (btn_listeners w = [(''click'', ToggleListener)] \<longrightarrow>
            dispatch_click w = click_listener w) \<and>
         (\<forall>s. click_listener s = apply_enabled (JBool (aria_pressed s \<noteq> Some ''true'')) s)"
proof -
  have run: "click_listener w = apply_enabled (JBool False) w"
    using assms(2) by (simp add: click_listener_eq)
  have "aria_pressed (click_listener w) = Some ''false''"
    and "label (click_listener w) = Some moon_glyph"
    using assms(1) by (simp_all add: run aria_apply label_apply)
  moreover have "stored_key (click_listener w) = Some ''0''"
    and "\<not> dark_marker (click_listener w)"
    by (simp_all add: run stored_apply marker_apply)
  ultimately show ?thesis
    using run click_listener_eq dispatch_single by blast
qed

theorem click_inverts_pressed_witness:
  "btn_found (init_module page0) \<and> aria_pressed (init_module page0) = Some ''true'' \<and>
   btn_listeners (init_module page0) = [(''click'', ToggleListener)] \<and>
   aria_pressed (dispatch_click (init_module page0)) = Some ''false'' \<and>
   label (dispatch_click (init_module page0)) = Some moon_glyph \<and>
   stored_key (dispatch_click (init_module page0)) = Some ''0''"
proof -
  have found0: "btn_found page0" and none0: "btn_listeners page0 = []"
    by (simp_all add: observer_defs page_defs)
  have found: "btn_found (init_module page0)"
    using found0 by (simp add: init_found observers_addEventListener found_apply)
  have pressed: "aria_pressed (init_module page0) = Some ''true''"
    using found0
    by (simp add: init_found observers_addEventListener aria_apply prefersDark_def
        stored_key_def getItem_def page_defs)
  have one: "btn_listeners (init_module page0) = [(''click'', ToggleListener)]"
    using found0 none0 by (rule init_one_listener)
  note click = click_inverts_pressed [OF found pressed]
  from click one
  have dispatch: "dispatch_click (init_module page0) = click_listener (init_module page0)"
    by blast
  from click found pressed one show ?thesis
    unfolding dispatch by blast
qed

text \<open>
  C10. In every state in which the button exists and its attribute \<^verbatim>\<open>aria-pressed\<close>
  is anything but exactly \<^verbatim>\<open>"true"\<close> (absent, or a value such as \<^verbatim>\<open>"mixed"\<close> set from
  outside), the click listener takes it as not pressed: its run is \<^verbatim>\<open>apply(true)\<close> and
  ends in dark mode. After any call of \<^verbatim>\<open>apply\<close>, whatever its argument, the attribute
  is exactly \<^verbatim>\<open>"true"\<close> or exactly \<^verbatim>\<open>"false"\<close>.
\<close>

theorem click_on_other_attribute:
  assumes "btn_found w" and "aria_pressed w \<noteq> Some ''true''"
  shows "click_listener w = apply_enabled (JBool True) w \<and>
         dark_marker (click_listener w) \<and>
         aria_pressed (click_listener w) = Some ''true'' \<and>
         stored_key (click_listener w) = Some ''1'' \<and>
         (aria_pressed (apply_enabled v w) = Some ''true'' \<or>
          aria_pressed (apply_enabled v w) = Some ''false'')"
proof -
  have run: "click_listener w = apply_enabled (JBool True) w"
    using assms(2) by (simp add: click_listener_eq)
  have "aria_pressed (apply_enabled v w) = Some ''true'' \<or>
      aria_pressed (apply_enabled v w) = Some ''false''"
    using aria_apply [OF assms(1), of v] by (cases "js_Boolean v") simp_all
  then show ?thesis
    using assms(1) by (simp add: run marker_apply aria_apply stored_apply)
qed

theorem click_on_other_attribute_witness:
  "btn_found page_mixed \<and> aria_pressed page_mixed = Some ''mixed'' \<and>
   aria_pressed page_mixed \<noteq> Some ''true'' \<and>
   dark_marker (click_listener page_mixed) \<and>
   aria_pressed (click_listener page_mixed) = Some ''true'' \<and>
   stored_key (click_listener page_mixed) = Some ''1''"
proof -
  have found: "btn_found page_mixed"
    and mixed: "aria_pressed page_mixed = Some ''mixed''"
    by (simp_all add: observer_defs getAttribute_def page_defs toggle_id_def)
  have other: "aria_pressed page_mixed \<noteq> Some ''true''"
    by (simp add: mixed)
  from click_on_other_attribute [OF found other] found mixed other show ?thesis
    by blast
qed

end
